theory Spec2Isabelle
  imports Main
begin

section \<open>Python values\<close>

text \<open>
  The tool functions of \<^verbatim>\<open>data.py\<close> return Python dictionaries whose values are
  \<^verbatim>\<open>None\<close>, strings, lists and nested dictionaries. A dictionary is an association
  list in insertion order (the keys written by the source are distinct). \<open>PAtom\<close> holds
  a scalar the code only passes along (a price, a volume, a timestamp).
\<close>

datatype 'a pyval =
    PNone
  | PStr string
  | PAtom 'a
  | PList "'a pyval list"
  | PDict "(string \<times> 'a pyval) list"

type_synonym 'a pydict = "(string \<times> 'a pyval) list"

section \<open>Historical price lookup (\<^verbatim>\<open>data.py\<close>, \<^verbatim>\<open>fetch_stock_history\<close>)\<close>

text \<open>
  The frame \<^verbatim>\<open>stock.history(start=..., end=...)\<close> returns: column labels, and one row
  per trading day, labelled by the row index (the date) and giving a cell for every
  column. The index is a label of the row, not one of its columns.
\<close>

record 'a dataframe =
  columns :: "string list"
  rows :: "(string \<times> (string \<Rightarrow> 'a)) list"

text \<open>\<^verbatim>\<open>history.empty\<close>: true when either axis has length zero.\<close>

definition df_empty :: "'a dataframe \<Rightarrow> bool" where
  "df_empty df = (columns df = [] \<or> rows df = [])"

text \<open>
  \<^verbatim>\<open>history.to_dict('records')\<close>: one dictionary per row, in row order, mapping each
  column label to the row's cell. The row index is not part of the dictionaries.
\<close>

definition to_dict_records :: "'a dataframe \<Rightarrow> 'a pydict list" where
  "to_dict_records df =
     map (\<lambda>(idx, cell). map (\<lambda>c. (c, PAtom (cell c))) (columns df)) (rows df)"

text \<open>
  The call \<^verbatim>\<open>yf.Ticker(ticker).history(start=start_date, end=end_date)\<close> is a
  parameter: it either raises (\<open>Inl\<close> of \<^verbatim>\<open>str(e)\<close>) or returns a frame.
\<close>

type_synonym 'a yf_history = "string \<Rightarrow> string \<Rightarrow> string \<Rightarrow> string + 'a dataframe"

definition fetch_stock_history ::
  "'a yf_history \<Rightarrow> string \<Rightarrow> string \<Rightarrow> string \<Rightarrow> 'a pydict" where
  "fetch_stock_history yf_history ticker start_date end_date =
     (case yf_history ticker start_date end_date of
        Inl e \<Rightarrow>
          [(''status'', PStr ''error''), (''message'', PStr e), (''data'', PNone)]
      | Inr history \<Rightarrow>
          if df_empty history then
            [(''status'', PStr ''error''),
             (''message'', PStr ''No data found for the given period.''),
             (''data'', PNone)]
          else
            let data = to_dict_records history
            in [(''status'', PStr ''success''), (''data'', PList (map PDict data))])"

text \<open>The field names of a dictionary, in insertion order.\<close>

definition field_names :: "'a pydict \<Rightarrow> string list" where
  "field_names d = map fst d"

text \<open>
  A frame of the shape yfinance returns for a daily history: the trading day is the row
  index, the columns are the price and volume columns. One row is enough here; cell
  values are given in cents and shares.
\<close>

definition aapl_cells :: "string \<Rightarrow> nat" where
  "aapl_cells c =
     (if c = ''Open'' then 18715 else if c = ''High'' then 18844
      else if c = ''Low'' then 18389 else if c = ''Close'' then 18564
      else if c = ''Volume'' then 82488700 else 0)"

definition aapl_frame :: "nat dataframe" where
  "aapl_frame =
     \<lparr>columns = [''Open'', ''High'', ''Low'', ''Close'', ''Volume'', ''Dividends'',
                 ''Stock Splits''],
      rows = [(''2024-01-02'', aapl_cells)]\<rparr>"

definition aapl_history :: "nat yf_history" where
  "aapl_history ticker start_date end_date =
     (if ticker = ''AAPL'' then Inr aapl_frame else Inr \<lparr>columns = [], rows = []\<rparr>)"


section \<open>String operations of the source\<close>

text \<open>
  A string is a list of characters; the operations below are the ones \<^verbatim>\<open>data.py\<close>
  uses: \<^verbatim>\<open>sub in s\<close>, \<^verbatim>\<open>s.split(sep)\<close> for a non-empty separator, \<^verbatim>\<open>xs[i]\<close>
  with its IndexError, and \<^verbatim>\<open>s.replace(' ', '+')\<close>.
\<close>

definition starts_with :: "string \<Rightarrow> string \<Rightarrow> bool" where
  "starts_with p s = (take (length p) s = p)"

fun contains :: "string \<Rightarrow> string \<Rightarrow> bool" where
  "contains sub [] = (sub = [])"
| "contains sub (c # cs) = (starts_with sub (c # cs) \<or> contains sub cs)"

text \<open>
  \<^verbatim>\<open>s.split(sep)\<close> scans from the left and cuts at every occurrence of the separator
  that does not overlap the previous one; \<open>piece\<close> is the text read since the last cut.
  The result always has at least one element.
\<close>

function split_from :: "string \<Rightarrow> string \<Rightarrow> string \<Rightarrow> string list" where
  "split_from sep piece [] = [piece]"
| "split_from sep piece (c # cs) =
     (if sep \<noteq> [] \<and> starts_with sep (c # cs)
      then piece # split_from sep [] (drop (length sep) (c # cs))
      else split_from sep (piece @ [c]) cs)"
  by pat_completeness auto
termination
  by (relation "measure (\<lambda>(sep, piece, s). length s)") auto

definition py_split :: "string \<Rightarrow> string \<Rightarrow> string list" where
  "py_split sep s = split_from sep [] s"

definition nth_opt :: "'b list \<Rightarrow> nat \<Rightarrow> 'b option" where
  "nth_opt xs i = (if i < length xs then Some (xs ! i) else None)"

definition replace_spaces :: "string \<Rightarrow> string" where
  "replace_spaces s = map (\<lambda>c. if c = CHR '' '' then CHR ''+'' else c) s"

section \<open>News summaries (\<^verbatim>\<open>data.py\<close>, \<^verbatim>\<open>get_news_summary\<close>)\<close>

text \<open>
  What \<^verbatim>\<open>newspaper\<close> extracts from a page. The library, the HTTP client and the
  search client are parameters of the model: each call either raises (\<open>Inl\<close> of
  \<^verbatim>\<open>str(e)\<close>) or returns its value.
  \<^item> \<open>ddgs_text query max_results\<close> and \<open>ddgs_news query max_results\<close>: the calls
    \<^verbatim>\<open>list(ddgs.text(query, max_results=n))\<close> and \<^verbatim>\<open>list(ddgs.news(...))\<close> inside
    \<^verbatim>\<open>with DDGS() as ddgs\<close>; a failure to open the session is a failure of the first
    call.
  \<^item> \<open>requests_get_links search_url\<close>: \<^verbatim>\<open>requests.get\<close>, the parse by BeautifulSoup
    and \<^verbatim>\<open>find_all('a', href=True)\<close>, giving the \<^verbatim>\<open>href\<close> of every anchor in
    document order.
  \<^item> \<open>article_download_parse url\<close>: \<^verbatim>\<open>Article(url)\<close>, \<^verbatim>\<open>download()\<close> and
    \<^verbatim>\<open>parse()\<close>.
\<close>

record article =
  article_title :: string
  article_meta_description :: string
  article_text :: string

record 'a web =
  ddgs_text :: "string \<Rightarrow> nat \<Rightarrow> string + 'a pydict list"
  ddgs_news :: "string \<Rightarrow> nat \<Rightarrow> string + 'a pydict list"
  requests_get_links :: "string \<Rightarrow> string + string list"
  article_download_parse :: "string \<Rightarrow> string + article"

text \<open>
  Every exception of the body is caught and gives \<^verbatim>\<open>None\<close>: a failed download or
  parse, and the IndexError of \<^verbatim>\<open>url.split('/')[2]\<close> when the URL has fewer than two
  slashes.
\<close>

definition get_news_summary :: "'a web \<Rightarrow> string \<Rightarrow> 'a pydict option" where
  "get_news_summary w url =
     (case article_download_parse w url of
        Inl e \<Rightarrow> None
      | Inr a \<Rightarrow>
          (case nth_opt (py_split ''/'' url) 2 of
             None \<Rightarrow> None
           | Some source \<Rightarrow>
               Some [(''title'', PStr (article_title a)),
                     (''summary'',
                        PStr (if article_meta_description a \<noteq> []
                              then article_meta_description a
                              else take 250 (article_text a))),
                     (''source'', PStr source),
                     (''url'', PStr url)]))"

section \<open>News URLs (\<^verbatim>\<open>data.py\<close>, \<^verbatim>\<open>get_news_urls\<close>)\<close>

definition remove_url :: "string list" where
  "remove_url =
     [''https://www.google.com'', ''https://maps.google.com'', ''https://play.google.com'',
      ''https://policies.google.com'', ''https://support.google.com'',
      ''https://accounts.google'']"

text \<open>
  \<^verbatim>\<open>news_links\<close> is a Python set. The model keeps its elements in a duplicate-free
  list, in the order of first insertion; the order in which Python lists a set is not
  fixed by the language, and no statement below depends on it.
\<close>

definition set_add :: "string \<Rightarrow> string list \<Rightarrow> string list" where
  "set_add x xs = (if x \<in> set xs then xs else xs @ [x])"

definition keep_link :: "string \<Rightarrow> bool" where
  "keep_link filter_url =
     (contains ''http'' filter_url \<and> \<not> contains ''msn'' filter_url \<and>
      \<not> list_ex (\<lambda>remove. contains remove filter_url) remove_url)"

fun news_links_loop :: "nat \<Rightarrow> string list \<Rightarrow> string list \<Rightarrow> string list" where
  "news_links_loop max_results news_links [] = news_links"
| "news_links_loop max_results news_links (url # links) =
     (if contains ''/url?q='' url then
        let filter_url = hd (py_split ''&'' (last (py_split ''/url?q='' url)))
        in if keep_link filter_url then
             let news_links' = set_add filter_url news_links
             in if length news_links' \<ge> max_results then news_links'
                else news_links_loop max_results news_links' links
           else news_links_loop max_results news_links links
      else news_links_loop max_results news_links links)"

definition search_url :: "string \<Rightarrow> string" where
  "search_url query =
     ''https://www.google.com/search?q='' @ replace_spaces query @ ''+news&tbm=nws''"

definition get_news_urls :: "'a web \<Rightarrow> string \<Rightarrow> nat \<Rightarrow> string list" where
  "get_news_urls w query max_results =
     (case requests_get_links w (search_url query) of
        Inl e \<Rightarrow> []
      | Inr hrefs \<Rightarrow> news_links_loop max_results [] hrefs)"

section \<open>Web and news search (\<^verbatim>\<open>data.py\<close>, \<^verbatim>\<open>search_duckduckgo\<close>)\<close>

text \<open>
  \<^verbatim>\<open>result["key"]\<close> raises KeyError when the key is missing, and \<^verbatim>\<open>str\<close> of that
  exception is the key in single quotes; \<^verbatim>\<open>result.get("date", "")\<close> does not raise.
\<close>

definition key_error :: "string \<Rightarrow> string" where
  "key_error k = [CHR 0x27] @ k @ [CHR 0x27]"

definition py_getitem :: "'a pydict \<Rightarrow> string \<Rightarrow> string + 'a pyval" where
  "py_getitem d k = (case map_of d k of None \<Rightarrow> Inl (key_error k) | Some v \<Rightarrow> Inr v)"

definition py_get :: "'a pydict \<Rightarrow> string \<Rightarrow> 'a pyval \<Rightarrow> 'a pyval" where
  "py_get d k dflt = (case map_of d k of None \<Rightarrow> dflt | Some v \<Rightarrow> v)"

definition format_text_result :: "'a pydict \<Rightarrow> string + 'a pydict" where
  "format_text_result result =
     (case py_getitem result ''title'' of Inl e \<Rightarrow> Inl e | Inr t \<Rightarrow>
       (case py_getitem result ''body'' of Inl e \<Rightarrow> Inl e | Inr b \<Rightarrow>
         (case py_getitem result ''link'' of Inl e \<Rightarrow> Inl e | Inr l \<Rightarrow>
            Inr [(''title'', t), (''snippet'', b), (''link'', l)])))"

definition format_news_result :: "'a pydict \<Rightarrow> string + 'a pydict" where
  "format_news_result result =
     (case py_getitem result ''title'' of Inl e \<Rightarrow> Inl e | Inr t \<Rightarrow>
       (case py_getitem result ''body'' of Inl e \<Rightarrow> Inl e | Inr b \<Rightarrow>
         (case py_getitem result ''link'' of Inl e \<Rightarrow> Inl e | Inr l \<Rightarrow>
            Inr [(''title'', t), (''snippet'', b), (''link'', l),
                 (''date'', py_get result ''date'' (PStr ''''))])))"

text \<open>A list comprehension whose element expression can raise: the first exception wins.\<close>

fun comprehension :: "('b \<Rightarrow> string + 'c) \<Rightarrow> 'b list \<Rightarrow> string + 'c list" where
  "comprehension f [] = Inr []"
| "comprehension f (x # xs) =
     (case f x of
        Inl e \<Rightarrow> Inl e
      | Inr y \<Rightarrow> (case comprehension f xs of Inl e \<Rightarrow> Inl e | Inr ys \<Rightarrow> Inr (y # ys)))"

text \<open>
  The loop over \<^verbatim>\<open>news_urls\<close>: a summary is appended when it is truthy, that is
  neither \<^verbatim>\<open>None\<close> nor an empty dictionary.
\<close>

fun news_summaries_loop :: "'a web \<Rightarrow> string list \<Rightarrow> 'a pydict list" where
  "news_summaries_loop w [] = []"
| "news_summaries_loop w (url # news_urls) =
     (case get_news_summary w url of
        None \<Rightarrow> news_summaries_loop w news_urls
      | Some summary \<Rightarrow>
          if summary \<noteq> [] then summary # news_summaries_loop w news_urls
          else news_summaries_loop w news_urls)"

definition error_result :: "string \<Rightarrow> 'a pydict" where
  "error_result e = [(''status'', PStr ''error''), (''message'', PStr e), (''results'', PNone)]"

definition search_duckduckgo :: "'a web \<Rightarrow> string \<Rightarrow> 'a pydict" where
  "search_duckduckgo w query =
     (case ddgs_text w query 5 of Inl e \<Rightarrow> error_result e | Inr text_results \<Rightarrow>
       (case ddgs_news w query 3 of Inl e \<Rightarrow> error_result e | Inr news_results \<Rightarrow>
         (let news_urls = get_news_urls w query 5;
              news_summaries = news_summaries_loop w news_urls
          in
            (case comprehension format_text_result text_results of
               Inl e \<Rightarrow> error_result e
             | Inr texts \<Rightarrow>
                (case comprehension format_news_result news_results of
                   Inl e \<Rightarrow> error_result e
                 | Inr news \<Rightarrow>
                     [(''status'', PStr ''success''),
                      (''results'',
                         PDict [(''text_results'', PList (map PDict texts)),
                                (''news_results'', PList (map PDict news)),
                                (''news_summaries'',
                                   PList (map PDict news_summaries))])])))))"


section \<open>Result shapes and entries of the search\<close>

text \<open>
  The result dictionary that \<^verbatim>\<open>search_duckduckgo\<close> builds on its success path, as a
  function of the three lists it holds.
\<close>

definition success_result ::
  "'a pydict list \<Rightarrow> 'a pydict list \<Rightarrow> 'a pydict list \<Rightarrow> 'a pydict" where
  "success_result texts news news_summaries =
     [(''status'', PStr ''success''),
      (''results'',
         PDict [(''text_results'', PList (map PDict texts)),
                (''news_results'', PList (map PDict news)),
                (''news_summaries'', PList (map PDict news_summaries))])]"

text \<open>An entry of a search result that has the keys the formatting code subscripts.\<close>

definition well_keyed :: "'a pydict \<Rightarrow> bool" where
  "well_keyed result =
     (map_of result ''title'' \<noteq> None \<and> map_of result ''body'' \<noteq> None \<and>
      map_of result ''link'' \<noteq> None)"

text \<open>
  The keys of the entries that the search client \<^verbatim>\<open>duckduckgo_search\<close> returns:
  \<^verbatim>\<open>DDGS.text\<close> gives dictionaries with title, href and body, \<^verbatim>\<open>DDGS.news\<close> gives
  dictionaries with date, title, body, url, image and source. Neither has a key
  \<^verbatim>\<open>link\<close>.
\<close>

definition ddgs_text_entry :: "'a pydict \<Rightarrow> bool" where
  "ddgs_text_entry result = (set (field_names result) = {''title'', ''href'', ''body''})"

definition ddgs_news_entry :: "'a pydict \<Rightarrow> bool" where
  "ddgs_news_entry result =
     (set (field_names result) =
        {''date'', ''title'', ''body'', ''url'', ''image'', ''source''})"

section \<open>The host of a URL\<close>

text \<open>
  The host component of a URL \<^verbatim>\<open>scheme://userinfo@host:port/path?query#fragment\<close>, as
  the generic URL syntax (RFC 3986) defines it: the authority is the text after the first
  \<^verbatim>\<open>://\<close> up to the next slash, question mark or hash; the host is what remains of
  the authority after dropping the user information (up to the last \<^verbatim>\<open>@\<close>) and the
  port. The port starts at the first colon, or, for an IP literal in square brackets,
  after the closing bracket. This is the notion the statements about the \<^verbatim>\<open>source\<close>
  field compare \<^verbatim>\<open>url.split('/')[2]\<close> with; it is not part of the program.
\<close>

fun after_scheme :: "string \<Rightarrow> string option" where
  "after_scheme [] = None"
| "after_scheme (c # cs) =
     (if starts_with ''://'' (c # cs) then Some (drop 3 (c # cs)) else after_scheme cs)"

definition url_authority :: "string \<Rightarrow> string option" where
  "url_authority url =
     (case after_scheme url of
        None \<Rightarrow> None
      | Some rest \<Rightarrow>
          Some (takeWhile (\<lambda>c. c \<noteq> CHR ''/'' \<and> c \<noteq> CHR ''?'' \<and> c \<noteq> CHR ''#'') rest))"

definition drop_userinfo :: "string \<Rightarrow> string" where
  "drop_userinfo authority = rev (takeWhile (\<lambda>c. c \<noteq> CHR ''@'') (rev authority))"

definition drop_port :: "string \<Rightarrow> string" where
  "drop_port hostport =
     (if starts_with ''['' hostport \<and> CHR '']'' \<in> set hostport
      then takeWhile (\<lambda>c. c \<noteq> CHR '']'') hostport @ '']''
      else takeWhile (\<lambda>c. c \<noteq> CHR '':'') hostport)"

definition url_host :: "string \<Rightarrow> string option" where
  "url_host url =
     (case url_authority url of
        None \<Rightarrow> None
      | Some authority \<Rightarrow> Some (drop_port (drop_userinfo authority)))"

section \<open>Sample environments for the search\<close>

text \<open>
  Entries as the search client returns them, and an article without a meta description.
\<close>

definition ddgs_text_hit :: "nat pydict" where
  "ddgs_text_hit =
     [(''title'', PStr ''Apple Inc.''), (''href'', PStr ''https://ex.com/q''),
      (''body'', PStr ''AAPL quote'')]"

definition ddgs_news_hit :: "nat pydict" where
  "ddgs_news_hit =
     [(''date'', PStr ''2024-03-01T09:00:00+00:00''), (''title'', PStr ''Apple hits record''),
      (''body'', PStr ''Shares of Apple rose.''), (''url'', PStr ''https://ex.com/a''),
      (''image'', PStr ''https://ex.com/a.png''), (''source'', PStr ''Example News'')]"

definition sample_article :: article where
  "sample_article =
     \<lparr>article_title = ''Apple hits record'', article_meta_description = '''',
      article_text = ''Shares of Apple rose.''\<rparr>"

definition sample_summary :: "nat pydict" where
  "sample_summary =
     [(''title'', PStr ''Apple hits record''), (''summary'', PStr ''Shares of Apple rose.''),
      (''source'', PStr ''ex.com''), (''url'', PStr ''https://ex.com/a'')]"

text \<open>
  \<open>quiet_web\<close>: the search client finds nothing for the query; Google News shows two
  article links, of which the first can be downloaded and parsed and the second cannot.
  \<open>hits_web\<close>: the same, with the search client returning one text entry and one news
  entry. \<open>ddgs_down_web\<close>: the same, with the text search raising.
  \<open>news_down_web\<close>: as \<open>quiet_web\<close>, with the Google News request raising.
\<close>

definition quiet_web :: "nat web" where
  "quiet_web =
     \<lparr>ddgs_text = (\<lambda>query max_results. Inr []),
      ddgs_news = (\<lambda>query max_results. Inr []),
      requests_get_links =
        (\<lambda>url. Inr [''/url?q=https://ex.com/a&sa=U'', ''/url?q=https://ex.com/b&sa=U'']),
      article_download_parse =
        (\<lambda>url. if url = ''https://ex.com/a'' then Inr sample_article
              else Inl ''Article download failed'')\<rparr>"

definition hits_web :: "nat web" where
  "hits_web =
     quiet_web\<lparr>ddgs_text := (\<lambda>query max_results. Inr (take max_results [ddgs_text_hit])),
               ddgs_news := (\<lambda>query max_results. Inr (take max_results [ddgs_news_hit]))\<rparr>"

definition ddgs_down_web :: "nat web" where
  "ddgs_down_web = quiet_web\<lparr>ddgs_text := (\<lambda>query max_results. Inl ''timeout'')\<rparr>"

definition news_down_web :: "nat web" where
  "news_down_web = quiet_web\<lparr>requests_get_links := (\<lambda>url. Inl ''connection refused'')\<rparr>"

text \<open>
  A page served on a non-default port, for the \<^verbatim>\<open>source\<close> field.
\<close>

definition port_web :: "nat web" where
  "port_web = quiet_web\<lparr>article_download_parse := (\<lambda>url. Inr sample_article)\<rparr>"

section \<open>The supervisor boundary (\<^verbatim>\<open>ma.py\<close> and \<^verbatim>\<open>main.py\<close>, \<^verbatim>\<open>process_user_query\<close>)\<close>

text \<open>
  The content of a message is a Python \<^verbatim>\<open>str\<close> or, as \<^verbatim>\<open>main.py\<close> writes it with the
  set display \<^verbatim>\<open>{query}\<close>, a set of \<^verbatim>\<open>str\<close>. A message is an object of one of the
  message classes or a plain dictionary. The state handed to the compiled supervisor, and
  the state it returns, is a dictionary from keys to lists of messages. The compiled
  supervisor is a parameter: \<^verbatim>\<open>invoke\<close> raises or returns a state.
\<close>

datatype content = Text string | TextSet "string set"

datatype message =
    HumanMessage content
  | AIMessage content
  | ToolMessage content
  | MessageDict "(string \<times> content) list"

type_synonym graph_state = "(string \<times> message list) list"

text \<open>
  The exceptions the handlers of \<^verbatim>\<open>transcribe_audio\<close> tell apart:
  \<^verbatim>\<open>sr.UnknownValueError\<close>, \<^verbatim>\<open>sr.RequestError\<close> with its \<^verbatim>\<open>str(e)\<close>, and any other
  \<^verbatim>\<open>Exception\<close> with its \<^verbatim>\<open>str(e)\<close>.
\<close>

datatype exn = UnknownValueError | RequestError string | OtherException string

type_synonym supervisor = "graph_state \<Rightarrow> exn + graph_state"

text \<open>\<^verbatim>\<open>ma.py\<close>: the query becomes a \<^verbatim>\<open>HumanMessage\<close> under the key \<^verbatim>\<open>messages\<close>.\<close>

definition ma_process_user_query :: "supervisor \<Rightarrow> string \<Rightarrow> exn + graph_state" where
  "ma_process_user_query invoke query =
     (let message = HumanMessage (Text query)
      in invoke [(''messages'', [message])])"

text \<open>
  \<^verbatim>\<open>main.py\<close>: the key is \<^verbatim>\<open>Message\<close>, the turn is a dictionary, and its content is
  the one-element set \<^verbatim>\<open>{query}\<close>.
\<close>

definition main_process_user_query :: "supervisor \<Rightarrow> string \<Rightarrow> exn + graph_state" where
  "main_process_user_query invoke query =
     invoke [(''Message'',
               [MessageDict [(''role'', Text ''user''), (''content'', TextSet {query})]])]"

text \<open>
  The payload shape the supervisor boundary is specified with: a conversation under the
  key \<^verbatim>\<open>messages\<close> that includes the query as a user turn with string content, the
  turn being a \<^verbatim>\<open>HumanMessage\<close> or a dictionary with role \<^verbatim>\<open>user\<close>. This follows the
  wording of the specification; it is not part of the program.
\<close>

definition user_turn :: "string \<Rightarrow> message \<Rightarrow> bool" where
  "user_turn query m =
     (case m of
        HumanMessage c \<Rightarrow> c = Text query
      | AIMessage c \<Rightarrow> False
      | ToolMessage c \<Rightarrow> False
      | MessageDict d \<Rightarrow>
          map_of d ''role'' = Some (Text ''user'') \<and> map_of d ''content'' = Some (Text query))"

definition conversation_payload :: "string \<Rightarrow> graph_state \<Rightarrow> bool" where
  "conversation_payload query payload =
     (case map_of payload ''messages'' of
        None \<Rightarrow> False
      | Some turns \<Rightarrow> list_ex (user_turn query) turns)"

section \<open>The transcription endpoint (\<^verbatim>\<open>main.py\<close>, \<^verbatim>\<open>transcribe_audio\<close>)\<close>

text \<open>
  What the outside world does during one request. Each field is the outcome of one call
  of the body, \<open>None\<close> or \<open>Inr\<close> when it returns and the exception when it raises:
  \<^item> \<open>makedirs\<close>: \<^verbatim>\<open>os.makedirs("static", exist_ok=True)\<close>;
  \<^item> \<open>save_upload\<close>: \<^verbatim>\<open>open("temp.wav", "wb")\<close>, \<^verbatim>\<open>await file.read()\<close>, the write and
    the close;
  \<^item> \<open>from_file\<close>: \<^verbatim>\<open>AudioSegment.from_file("temp.wav")\<close>;
  \<^item> \<open>sound_export\<close>: \<^verbatim>\<open>sound.export("converted.wav", format="wav")\<close>;
  \<^item> \<open>recognize\<close>: \<^verbatim>\<open>sr.AudioFile("converted.wav")\<close>, \<^verbatim>\<open>recognizer.record\<close> and
    \<^verbatim>\<open>recognizer.recognize_google\<close>, giving the text;
  \<^item> \<open>invoke\<close>: \<^verbatim>\<open>app_agent.invoke\<close>;
  \<^item> \<open>uuid4_hex\<close>: the value of \<^verbatim>\<open>uuid.uuid4().hex\<close>;
  \<^item> \<open>gtts\<close>: \<^verbatim>\<open>gTTS(text=final_response, lang='en')\<close>;
  \<^item> \<open>tts_save\<close>: \<^verbatim>\<open>tts.save(audio_path)\<close>.

  \<^verbatim>\<open>JSONResponse\<close> of a dictionary of strings is taken to return. An exception that
  is not an \<^verbatim>\<open>Exception\<close> (a cancelled task) is outside the model: no handler of the
  function catches it and no response object is built.
\<close>

record request =
  makedirs :: "exn option"
  save_upload :: "exn option"
  from_file :: "exn option"
  sound_export :: "exn option"
  recognize :: "exn + string"
  invoke :: supervisor
  uuid4_hex :: string
  gtts :: "content \<Rightarrow> exn option"
  tts_save :: "string \<Rightarrow> exn option"

type_synonym json = "(string \<times> content) list"

text \<open>
  The loop over \<^verbatim>\<open>reversed(response['messages'])\<close>: the first \<^verbatim>\<open>AIMessage\<close> met
  gives the final response and ends the loop; with none, the initial value stays.
\<close>

fun scan_messages :: "content \<Rightarrow> message list \<Rightarrow> content" where
  "scan_messages final_response [] = final_response"
| "scan_messages final_response (message # messages) =
     (case message of
        AIMessage c \<Rightarrow> c
      | _ \<Rightarrow> scan_messages final_response messages)"

definition final_response_of :: "message list \<Rightarrow> content" where
  "final_response_of messages = scan_messages (Text '''') (rev messages)"

text \<open>
  The body of the \<^verbatim>\<open>try\<close> block, in two parts: \<open>respond\<close> is what follows the return of
  the supervisor, from \<^verbatim>\<open>response['messages']\<close> (a KeyError when the key is missing) to
  the JSON object. Beside its outcome each part gives the paths of the calls it reached
  that open a file for writing, in the order they are reached.
\<close>

definition respond :: "request \<Rightarrow> string \<Rightarrow> graph_state \<Rightarrow> string list \<times> (exn + json)" where
  "respond rq text response =
     (case map_of response ''messages'' of
        None \<Rightarrow> ([], Inl (OtherException (key_error ''messages'')))
      | Some messages \<Rightarrow>
          (let final_response = final_response_of messages;
               audio_filename = ''response_'' @ uuid4_hex rq @ ''.mp3'';
               audio_path = ''static/'' @ audio_filename
           in (case gtts rq final_response of
                 Some e \<Rightarrow> ([], Inl e)
               | None \<Rightarrow>
                   (case tts_save rq audio_path of
                      Some e \<Rightarrow> ([audio_path], Inl e)
                    | None \<Rightarrow>
                        ([audio_path],
                         Inr [(''transcription'', Text text),
                              (''response'', final_response),
                              (''audio_url'', Text (''/static/'' @ audio_filename))])))))"

definition transcribe_body :: "request \<Rightarrow> string list \<times> (exn + json)" where
  "transcribe_body rq =
     (case makedirs rq of Some e \<Rightarrow> ([], Inl e) | None \<Rightarrow>
       (case save_upload rq of Some e \<Rightarrow> ([''temp.wav''], Inl e) | None \<Rightarrow>
         (case from_file rq of Some e \<Rightarrow> ([''temp.wav''], Inl e) | None \<Rightarrow>
           (case sound_export rq of
              Some e \<Rightarrow> ([''temp.wav'', ''converted.wav''], Inl e)
            | None \<Rightarrow>
               (case recognize rq of
                  Inl e \<Rightarrow> ([''temp.wav'', ''converted.wav''], Inl e)
                | Inr text \<Rightarrow>
                   (case main_process_user_query (invoke rq) text of
                      Inl e \<Rightarrow> ([''temp.wav'', ''converted.wav''], Inl e)
                    | Inr response \<Rightarrow>
                        ([''temp.wav'', ''converted.wav''] @ fst (respond rq text response),
                         snd (respond rq text response))))))))"

text \<open>The three \<^verbatim>\<open>except\<close> clauses.\<close>

definition on_exception :: "exn \<Rightarrow> json" where
  "on_exception e =
     (case e of
        UnknownValueError \<Rightarrow>
          [(''error'', Text ''Google Speech Recognition could not understand audio'')]
      | RequestError m \<Rightarrow>
          [(''error'', Text (''Could not request results from Google; '' @ m))]
      | OtherException m \<Rightarrow> [(''error'', Text m)])"

definition transcribe_audio :: "request \<Rightarrow> json" where
  "transcribe_audio rq =
     (case snd (transcribe_body rq) of Inl e \<Rightarrow> on_exception e | Inr body \<Rightarrow> body)"


section \<open>Sample requests\<close>

text \<open>
  A trace as the supervisor returns it with \<^verbatim>\<open>output_mode="full_history"\<close>: the user
  turn, the supervisor's hand-off, the agent's answer, the hand-back and the final
  answer, followed here by a tool message.
\<close>

definition sample_trace :: "message list" where
  "sample_trace =
     [HumanMessage (Text ''What is the price of AAPL''),
      AIMessage (Text ''''),
      ToolMessage (Text ''Successfully transferred to stock_history_agent''),
      AIMessage (Text ''AAPL closed at 190.''),
      ToolMessage (Text ''Successfully transferred back to supervisor'')]"

text \<open>
  A supervisor that subscripts the \<^verbatim>\<open>messages\<close> key of its input and answers with
  the sample trace.
\<close>

definition sample_supervisor :: supervisor where
  "sample_supervisor payload =
     (case map_of payload ''messages'' of
        None \<Rightarrow> Inl (OtherException (key_error ''messages''))
      | Some turns \<Rightarrow> Inr [(''messages'', sample_trace)])"

text \<open>
  \<open>spoken_request\<close>: an upload that is converted and recognised; speech synthesis works.
  \<open>silent_request\<close>: an upload of silence, which the recogniser cannot understand.
  \<open>offline_request\<close>: an upload for which the recognition service cannot be reached.
\<close>

definition spoken_request :: request where
  "spoken_request =
     \<lparr>makedirs = None, save_upload = None, from_file = None, sound_export = None,
      recognize = Inr ''What is the price of AAPL'',
      invoke = sample_supervisor,
      uuid4_hex = ''0f8fad5bd9cb469fa16570867728950e'',
      gtts = (\<lambda>text. None), tts_save = (\<lambda>path. None)\<rparr>"

definition silent_request :: request where
  "silent_request =
     spoken_request\<lparr>recognize := Inl UnknownValueError,
                    uuid4_hex := ''7c9e6679742540de944be07fc1f90ae7''\<rparr>"


section \<open>Properties of the historical price lookup\<close>

lemma fetch_stock_history_error_data:
  "map_of (fetch_stock_history h t s e) ''status'' = Some (PStr ''error'') \<Longrightarrow>
   map_of (fetch_stock_history h t s e) ''data'' = Some PNone"
  by (auto simp: fetch_stock_history_def Let_def split: sum.splits if_splits)

text \<open>
  Claim C2. When the history call returns an empty result set (as for an unknown ticker
  such as ZZZZINVALID, or a start date after the end date), \<open>fetch_stock_history\<close>
  returns exactly the three fields status, message and data, with status "error", the
  message "No data found for the given period." (which is not the empty string) and a
  null data payload.
\<close>

theorem fetch_stock_history_no_data:
  assumes "yf_history ticker start_date end_date = Inr history"
    and "df_empty history"
  shows "fetch_stock_history yf_history ticker start_date end_date =
           [(''status'', PStr ''error''),
            (''message'', PStr ''No data found for the given period.''),
            (''data'', PNone)]
         \<and> ''No data found for the given period.'' \<noteq> ''''"
  using assms by (simp add: fetch_stock_history_def)

theorem fetch_stock_history_no_data_witness:
  "fetch_stock_history (\<lambda>t s e. Inr \<lparr>columns = [], rows = []\<rparr> :: string + nat dataframe)
       ''ZZZZINVALID'' ''2024-01-01'' ''2024-03-01'' =
     [(''status'', PStr ''error''),
      (''message'', PStr ''No data found for the given period.''),
      (''data'', PNone)]"
  using fetch_stock_history_no_data
    [of "\<lambda>t s e. Inr \<lparr>columns = [], rows = []\<rparr> :: string + nat dataframe"
        "''ZZZZINVALID''" "''2024-01-01''" "''2024-03-01''" "\<lparr>columns = [], rows = []\<rparr>"]
  by (simp add: df_empty_def)

lemma to_dict_records_field_names:
  "r \<in> set (to_dict_records df) \<Longrightarrow> field_names r = columns df"
  by (auto simp: to_dict_records_def field_names_def comp_def)

lemma to_dict_records_nth:
  "i < length (rows df) \<Longrightarrow>
   to_dict_records df ! i = map (\<lambda>c. (c, PAtom (snd (rows df ! i) c))) (columns df)"
  by (simp add: to_dict_records_def case_prod_beta)

lemma fetch_stock_history_success_cases:
  assumes "map_of (fetch_stock_history h t s e) ''status'' = Some (PStr ''success'')"
  shows "\<exists>history. h t s e = Inr history \<and> \<not> df_empty history \<and>
           fetch_stock_history h t s e =
             [(''status'', PStr ''success''),
              (''data'', PList (map PDict (to_dict_records history)))]"
proof (cases "h t s e")
  case (Inl msg)
  with assms show ?thesis by (simp add: fetch_stock_history_def)
next
  case (Inr history)
  with assms have "\<not> df_empty history"
    by (auto simp: fetch_stock_history_def split: if_splits)
  with Inr show ?thesis by (simp add: fetch_stock_history_def)
qed

text \<open>
  Claim C3, as stated, at a frame of the shape yfinance returns: the call succeeds and
  the single record has the seven column fields and no date field, so it is not true
  that every record carries both a date and a closing price.
\<close>

theorem fetch_stock_history_date_counterexample:
  "fetch_stock_history aapl_history ''AAPL'' ''2024-01-01'' ''2024-03-01'' =
     [(''status'', PStr ''success''),
      (''data'', PList [PDict
         [(''Open'', PAtom 18715), (''High'', PAtom 18844), (''Low'', PAtom 18389),
          (''Close'', PAtom 18564), (''Volume'', PAtom 82488700), (''Dividends'', PAtom 0),
          (''Stock Splits'', PAtom 0)]])]
   \<and> \<not> (\<forall>r \<in> set (to_dict_records aapl_frame).
            ''Date'' \<in> set (field_names r) \<and> ''Close'' \<in> set (field_names r))"
  by (simp add: fetch_stock_history_def aapl_history_def aapl_frame_def aapl_cells_def
      df_empty_def to_dict_records_def field_names_def)

text \<open>
  Claim C3, amended. Whenever \<open>fetch_stock_history\<close> returns status "success", the
  history call returned a frame with at least one row and one column, and the data
  payload is a non-empty sequence with one record per row of that frame, in row order;
  the fields of every record are exactly the columns of the frame (so a closing price
  field is present whenever the frame has a Close column). The row index, which holds
  the date, is not a field of the records.
\<close>

theorem fetch_stock_history_success_records:
  assumes "map_of (fetch_stock_history h t s e) ''status'' = Some (PStr ''success'')"
  shows "\<exists>history. h t s e = Inr history \<and>
           fetch_stock_history h t s e =
             [(''status'', PStr ''success''),
              (''data'', PList (map PDict (to_dict_records history)))] \<and>
           to_dict_records history \<noteq> [] \<and>
           length (to_dict_records history) = length (rows history) \<and>
           (\<forall>i < length (rows history).
              to_dict_records history ! i =
                map (\<lambda>c. (c, PAtom (snd (rows history ! i) c))) (columns history)) \<and>
           (\<forall>r \<in> set (to_dict_records history).
              field_names r = columns history \<and> field_names r \<noteq> [])"
proof -
  from fetch_stock_history_success_cases [OF assms] obtain history where
    h: "h t s e = Inr history" and ne: "\<not> df_empty history" and
    res: "fetch_stock_history h t s e =
            [(''status'', PStr ''success''),
             (''data'', PList (map PDict (to_dict_records history)))]"
    by blast
  from ne have r: "rows history \<noteq> []" and c: "columns history \<noteq> []"
    by (simp_all add: df_empty_def)
  have len: "length (to_dict_records history) = length (rows history)"
    by (simp add: to_dict_records_def)
  with r have "to_dict_records history \<noteq> []" by auto
  moreover have "\<forall>r \<in> set (to_dict_records history).
      field_names r = columns history \<and> field_names r \<noteq> []"
    using c by (simp add: to_dict_records_field_names)
  ultimately show ?thesis
    using h res len by (auto simp: to_dict_records_nth)
qed

theorem fetch_stock_history_success_records_witness:
  "\<exists>history. aapl_history ''AAPL'' ''2024-01-01'' ''2024-03-01'' = Inr history \<and>
     to_dict_records history \<noteq> [] \<and>
     length (to_dict_records history) = 1 \<and>
     (\<forall>r \<in> set (to_dict_records history).
        field_names r =
          [''Open'', ''High'', ''Low'', ''Close'', ''Volume'', ''Dividends'',
           ''Stock Splits''])"
proof -
  have "map_of (fetch_stock_history aapl_history ''AAPL'' ''2024-01-01'' ''2024-03-01'')
          ''status'' = Some (PStr ''success'')"
    by (simp add: fetch_stock_history_def aapl_history_def aapl_frame_def df_empty_def)
  from fetch_stock_history_success_records [OF this]
  show ?thesis
    by (auto simp: aapl_history_def aapl_frame_def)
qed

section \<open>Properties of the string operations and the search helpers\<close>

lemma split_from_nonempty: "split_from sep piece s \<noteq> []"
  by (induction sep piece s rule: split_from.induct) auto

lemma split_from_no_slash:
  "CHR ''/'' \<notin> set xs \<Longrightarrow> split_from ''/'' piece xs = [piece @ xs]"
  by (induction xs arbitrary: piece) (auto simp: starts_with_def)

lemma split_from_cut_slash:
  "CHR ''/'' \<notin> set xs \<Longrightarrow>
   split_from ''/'' piece (xs @ CHR ''/'' # ys) = (piece @ xs) # split_from ''/'' [] ys"
  by (induction xs arbitrary: piece) (auto simp: starts_with_def)




lemma get_news_summary_fields:
  "get_news_summary w url = Some s \<Longrightarrow>
   field_names s = [''title'', ''summary'', ''source'', ''url'']"
  by (auto simp: get_news_summary_def field_names_def split: sum.splits option.splits)

lemma news_summaries_loop_map_filter:
  "news_summaries_loop w urls = List.map_filter (get_news_summary w) urls"
proof (induction urls)
  case Nil
  show ?case by (simp add: List.map_filter_simps)
next
  case (Cons url urls)
  show ?case
  proof (cases "get_news_summary w url")
    case None
    with Cons show ?thesis by (simp add: List.map_filter_simps)
  next
    case (Some s)
    from get_news_summary_fields [OF Some] have "s \<noteq> []"
      by (auto simp: field_names_def)
    with Some Cons show ?thesis by (simp add: List.map_filter_simps)
  qed
qed




lemma comprehension_map:
  "(\<And>x. x \<in> set xs \<Longrightarrow> f x = Inr (g x)) \<Longrightarrow> comprehension f xs = Inr (map g xs)"
  by (induction xs) simp_all

lemma comprehension_returns:
  "comprehension f xs = Inr ys \<Longrightarrow> x \<in> set xs \<Longrightarrow> \<exists>y. f x = Inr y"
  by (induction xs arbitrary: ys) (auto split: sum.splits)

lemma comprehension_raised:
  "comprehension f xs = Inl e \<Longrightarrow> \<exists>x \<in> set xs. f x = Inl e"
  by (induction xs) (auto split: sum.splits)

lemma format_text_result_keyed:
  "well_keyed r \<Longrightarrow>
   format_text_result r =
     Inr [(''title'', the (map_of r ''title'')), (''snippet'', the (map_of r ''body'')),
          (''link'', the (map_of r ''link''))]"
  by (auto simp: well_keyed_def format_text_result_def py_getitem_def)

lemma format_news_result_keyed:
  "well_keyed r \<Longrightarrow>
   format_news_result r =
     Inr [(''title'', the (map_of r ''title'')), (''snippet'', the (map_of r ''body'')),
          (''link'', the (map_of r ''link'')),
          (''date'', case map_of r ''date'' of None \<Rightarrow> PStr [] | Some d \<Rightarrow> d)]"
  by (auto simp: well_keyed_def format_news_result_def py_getitem_def py_get_def)

lemma format_text_result_returns:
  "format_text_result r = Inr d \<Longrightarrow> well_keyed r"
  by (auto simp: well_keyed_def format_text_result_def py_getitem_def split: option.splits)

lemma format_news_result_returns:
  "format_news_result r = Inr d \<Longrightarrow> well_keyed r"
  by (auto simp: well_keyed_def format_news_result_def py_getitem_def split: option.splits)

lemma format_text_result_key_error:
  "format_text_result r = Inl e \<Longrightarrow>
   e = key_error ''title'' \<or> e = key_error ''body'' \<or> e = key_error ''link''"
  by (auto simp: format_text_result_def py_getitem_def split: option.splits)

lemma format_news_result_key_error:
  "format_news_result r = Inl e \<Longrightarrow>
   e = key_error ''title'' \<or> e = key_error ''body'' \<or> e = key_error ''link''"
  by (auto simp: format_news_result_def py_getitem_def split: option.splits)

lemma ddgs_text_entry_no_link:
  "ddgs_text_entry r \<Longrightarrow> format_text_result r = Inl (key_error ''link'')"
proof -
  assume "ddgs_text_entry r"
  then have k: "fst ` set r = {''title'', ''href'', ''body''}"
    by (simp add: ddgs_text_entry_def field_names_def)
  have "map_of r ''title'' \<noteq> None" "map_of r ''body'' \<noteq> None" "map_of r ''link'' = None"
    using k by (simp_all add: map_of_eq_None_iff)
  then show ?thesis
    by (auto simp: format_text_result_def py_getitem_def)
qed

lemma ddgs_news_entry_no_link:
  "ddgs_news_entry r \<Longrightarrow> format_news_result r = Inl (key_error ''link'')"
proof -
  assume "ddgs_news_entry r"
  then have k: "fst ` set r = {''date'', ''title'', ''body'', ''url'', ''image'', ''source''}"
    by (simp add: ddgs_news_entry_def field_names_def)
  have "map_of r ''title'' \<noteq> None" "map_of r ''body'' \<noteq> None" "map_of r ''link'' = None"
    using k by (simp_all add: map_of_eq_None_iff)
  then show ?thesis
    by (auto simp: format_news_result_def py_getitem_def)
qed

lemma comprehension_ddgs_text:
  "list_all ddgs_text_entry ts \<Longrightarrow> ts \<noteq> [] \<Longrightarrow>
   comprehension format_text_result ts = Inl (key_error ''link'')"
  by (cases ts) (simp_all add: ddgs_text_entry_no_link)

lemma comprehension_ddgs_news:
  "list_all ddgs_news_entry ns \<Longrightarrow> ns \<noteq> [] \<Longrightarrow>
   comprehension format_news_result ns = Inl (key_error ''link'')"
  by (cases ns) (simp_all add: ddgs_news_entry_no_link)

lemma after_scheme_found:
  "CHR ''/'' \<notin> set scheme \<Longrightarrow> after_scheme (scheme @ ''://'' @ rest) = Some rest"
proof (induction scheme)
  case Nil
  show ?case by (simp add: starts_with_def)
next
  case (Cons c cs)
  then have "\<not> starts_with ''://'' ((c # cs) @ ''://'' @ rest)"
    by (cases cs) (auto simp: starts_with_def)
  with Cons show ?case by simp
qed

section \<open>Properties of the web and news search\<close>


text \<open>
  Claim C5. For every query (empty or not) and every behaviour of the search client, the
  HTTP client and the article parser, \<open>search_duckduckgo\<close> returns one of two shapes:
  status "success" with a results dictionary holding exactly the three lists
  text_results, news_results and news_summaries (each possibly empty), or status "error"
  with a message and \<^verbatim>\<open>results = None\<close>, that is no payload. No result mixes an error
  status with a results payload.
\<close>

theorem search_duckduckgo_all_or_nothing:
  "(\<exists>texts news news_summaries.
      search_duckduckgo w query =
        [(''status'', PStr ''success''),
         (''results'',
            PDict [(''text_results'', PList (map PDict texts)),
                   (''news_results'', PList (map PDict news)),
                   (''news_summaries'', PList (map PDict news_summaries))])])
   \<or> (\<exists>message.
         search_duckduckgo w query =
           [(''status'', PStr ''error''), (''message'', PStr message), (''results'', PNone)])"
  by (auto simp: search_duckduckgo_def error_result_def Let_def split: sum.splits)


lemma search_duckduckgo_error_cases:
  assumes "map_of (search_duckduckgo w query) ''status'' = Some (PStr ''error'')"
  shows "(\<exists>e. ddgs_text w query 5 = Inl e) \<or> (\<exists>e. ddgs_news w query 3 = Inl e) \<or>
         (\<exists>ts e. ddgs_text w query 5 = Inr ts \<and> comprehension format_text_result ts = Inl e) \<or>
         (\<exists>ns e. ddgs_news w query 3 = Inr ns \<and> comprehension format_news_result ns = Inl e)"
  using assms
  by (auto simp: search_duckduckgo_def error_result_def Let_def split: sum.splits)

lemma search_duckduckgo_returned:
  assumes "ddgs_text w query 5 = Inr ts" and "ddgs_news w query 3 = Inr ns"
    and "comprehension format_text_result ts = Inr texts"
    and "comprehension format_news_result ns = Inr news"
  shows "search_duckduckgo w query =
           success_result texts news
             (List.map_filter (get_news_summary w) (get_news_urls w query 5))"
  using assms
  by (simp add: search_duckduckgo_def success_result_def news_summaries_loop_map_filter)

lemma search_duckduckgo_text_raised:
  assumes "ddgs_text w query 5 = Inr ts" and "ddgs_news w query 3 = Inr ns"
    and "comprehension format_text_result ts = Inl e"
  shows "search_duckduckgo w query = error_result e"
  using assms by (simp add: search_duckduckgo_def)

lemma search_duckduckgo_news_raised:
  assumes "ddgs_text w query 5 = Inr ts" and "ddgs_news w query 3 = Inr ns"
    and "comprehension format_text_result ts = Inr texts"
    and "comprehension format_news_result ns = Inl e"
  shows "search_duckduckgo w query = error_result e"
  using assms by (simp add: search_duckduckgo_def)

lemma get_news_urls_request_failure:
  "requests_get_links w (search_url query) = Inl e \<Longrightarrow> get_news_urls w query n = []"
  by (simp add: get_news_urls_def)

lemma get_news_summary_fetch_failure:
  "article_download_parse w url = Inl e \<Longrightarrow> get_news_summary w url = None"
  by (simp add: get_news_summary_def)


lemma quiet_urls:
  "get_news_urls quiet_web ''AAPL'' 5 = [''https://ex.com/a'', ''https://ex.com/b'']"
  by (simp add: get_news_urls_def quiet_web_def search_url_def py_split_def
      starts_with_def keep_link_def remove_url_def set_add_def)

lemma quiet_summary_a:
  "get_news_summary quiet_web ''https://ex.com/a'' = Some sample_summary"
  by (simp add: get_news_summary_def quiet_web_def sample_article_def sample_summary_def
      py_split_def starts_with_def nth_opt_def)

lemma quiet_summary_b: "get_news_summary quiet_web ''https://ex.com/b'' = None"
  by (simp add: get_news_summary_def quiet_web_def)




text \<open>
  Claim C4, as stated, fails when the DuckDuckGo text search raises: the Google News
  URLs are collected and the summary loop yields one record, yet the call returns the
  error result with \<^verbatim>\<open>results = None\<close> and the summary is lost.
\<close>

theorem search_duckduckgo_ddgs_failure_counterexample:
  "ddgs_text ddgs_down_web ''AAPL'' 5 = Inl ''timeout'' \<and>
   news_summaries_loop ddgs_down_web (get_news_urls ddgs_down_web ''AAPL'' 5) =
     [sample_summary] \<and>
   search_duckduckgo ddgs_down_web ''AAPL'' =
     [(''status'', PStr ''error''), (''message'', PStr ''timeout''), (''results'', PNone)]"
proof -
  have u: "get_news_urls ddgs_down_web ''AAPL'' 5 = [''https://ex.com/a'', ''https://ex.com/b'']"
    by (simp add: get_news_urls_def ddgs_down_web_def quiet_web_def search_url_def
        py_split_def starts_with_def keep_link_def remove_url_def set_add_def)
  have a: "get_news_summary ddgs_down_web ''https://ex.com/a'' = Some sample_summary"
    by (simp add: get_news_summary_def ddgs_down_web_def quiet_web_def sample_article_def
        sample_summary_def py_split_def starts_with_def nth_opt_def)
  have b: "get_news_summary ddgs_down_web ''https://ex.com/b'' = None"
    by (simp add: get_news_summary_def ddgs_down_web_def quiet_web_def)
  have ne: "sample_summary \<noteq> []" by (simp add: sample_summary_def)
  have d: "ddgs_text ddgs_down_web ''AAPL'' 5 = Inl ''timeout''"
    by (simp add: ddgs_down_web_def quiet_web_def)
  show ?thesis
    by (simp add: u a b ne d search_duckduckgo_def error_result_def)
qed

text \<open>
  Claim C4, amended. The news side is isolated: a failed Google News request gives no
  URLs and a failed article download or parse gives no summary, and neither changes
  whether the call succeeds, its error message, or its text and news results; two webs
  that answer the DuckDuckGo calls alike give the same outcome up to the news summaries,
  which are the summaries of exactly the URLs whose extraction succeeded. The DuckDuckGo
  side is not isolated: an exception of the text or news call makes the whole call return
  the error result with that exception's message and \<^verbatim>\<open>results = None\<close>, and so does an
  entry without title, body or link, with the KeyError's message. Entries with the keys
  the search client uses have no link, so any such entry gives the error \<^verbatim>\<open>'link'\<close>.
  When all entries carry title, body and link, the call succeeds and returns one record
  per entry, made of the entry's own title, body (as snippet) and link, and for news its
  date or the empty string.
\<close>

theorem search_duckduckgo_failure_isolation:
  "(\<forall>e. ddgs_text w query 5 = Inl e \<longrightarrow> search_duckduckgo w query = error_result e)
   \<and> (\<forall>ts e. ddgs_text w query 5 = Inr ts \<and> ddgs_news w query 3 = Inl e \<longrightarrow>
          search_duckduckgo w query = error_result e)
   \<and> (\<forall>ts ns. ddgs_text w query 5 = Inr ts \<and> ddgs_news w query 3 = Inr ns \<and>
          list_all well_keyed ts \<and> list_all well_keyed ns \<longrightarrow>
          search_duckduckgo w query =
            success_result
              (map (\<lambda>r. [(''title'', the (map_of r ''title'')),
                         (''snippet'', the (map_of r ''body'')),
                         (''link'', the (map_of r ''link''))]) ts)
              (map (\<lambda>r. [(''title'', the (map_of r ''title'')),
                         (''snippet'', the (map_of r ''body'')),
                         (''link'', the (map_of r ''link'')),
                         (''date'', case map_of r ''date'' of
                                      None \<Rightarrow> PStr [] | Some d \<Rightarrow> d)]) ns)
              (List.map_filter (get_news_summary w) (get_news_urls w query 5)))
   \<and> (\<forall>ts ns. ddgs_text w query 5 = Inr ts \<and> ddgs_news w query 3 = Inr ns \<and>
          \<not> (list_all well_keyed ts \<and> list_all well_keyed ns) \<longrightarrow>
          search_duckduckgo w query = error_result (key_error ''title'') \<or>
          search_duckduckgo w query = error_result (key_error ''body'') \<or>
          search_duckduckgo w query = error_result (key_error ''link''))
   \<and> (\<forall>ts ns. ddgs_text w query 5 = Inr ts \<and> ddgs_news w query 3 = Inr ns \<and>
          list_all ddgs_text_entry ts \<and> list_all ddgs_news_entry ns \<and>
          (ts \<noteq> [] \<or> ns \<noteq> []) \<longrightarrow>
          search_duckduckgo w query = error_result (key_error ''link''))
   \<and> (\<forall>w'. ddgs_text w' query 5 = ddgs_text w query 5 \<and>
          ddgs_news w' query 3 = ddgs_news w query 3 \<longrightarrow>
          (\<exists>e. search_duckduckgo w query = error_result e \<and>
               search_duckduckgo w' query = error_result e) \<or>
          (\<exists>texts news.
             search_duckduckgo w query =
               success_result texts news
                 (List.map_filter (get_news_summary w) (get_news_urls w query 5)) \<and>
             search_duckduckgo w' query =
               success_result texts news
                 (List.map_filter (get_news_summary w') (get_news_urls w' query 5))))
   \<and> (\<forall>e. requests_get_links w (search_url query) = Inl e \<longrightarrow>
          get_news_urls w query 5 = [])
   \<and> (\<forall>url e. article_download_parse w url = Inl e \<longrightarrow> get_news_summary w url = None)"
proof -
  have e1: "search_duckduckgo w query = error_result e" if "ddgs_text w query 5 = Inl e" for e
    using that by (simp add: search_duckduckgo_def)
  have e2: "search_duckduckgo w query = error_result e"
    if "ddgs_text w query 5 = Inr ts" "ddgs_news w query 3 = Inl e" for ts e
    using that by (simp add: search_duckduckgo_def)
  have ok: "search_duckduckgo w query =
            success_result
              (map (\<lambda>r. [(''title'', the (map_of r ''title'')),
                         (''snippet'', the (map_of r ''body'')),
                         (''link'', the (map_of r ''link''))]) ts)
              (map (\<lambda>r. [(''title'', the (map_of r ''title'')),
                         (''snippet'', the (map_of r ''body'')),
                         (''link'', the (map_of r ''link'')),
                         (''date'', case map_of r ''date'' of
                                      None \<Rightarrow> PStr [] | Some d \<Rightarrow> d)]) ns)
              (List.map_filter (get_news_summary w) (get_news_urls w query 5))"
    if t: "ddgs_text w query 5 = Inr ts" and n: "ddgs_news w query 3 = Inr ns"
      and kt: "list_all well_keyed ts" and kn: "list_all well_keyed ns" for ts ns
  proof -
    have ct: "comprehension format_text_result ts =
        Inr (map (\<lambda>r. [(''title'', the (map_of r ''title'')),
                         (''snippet'', the (map_of r ''body'')),
                         (''link'', the (map_of r ''link''))]) ts)"
      using kt by (intro comprehension_map) (simp add: list_all_iff format_text_result_keyed)
    have cn: "comprehension format_news_result ns =
        Inr (map (\<lambda>r. [(''title'', the (map_of r ''title'')),
                         (''snippet'', the (map_of r ''body'')),
                         (''link'', the (map_of r ''link'')),
                         (''date'', case map_of r ''date'' of
                                      None \<Rightarrow> PStr [] | Some d \<Rightarrow> d)]) ns)"
      using kn by (intro comprehension_map) (simp add: list_all_iff format_news_result_keyed)
    from search_duckduckgo_returned [OF t n ct cn] show ?thesis .
  qed
  have bad: "search_duckduckgo w query = error_result (key_error ''title'') \<or>
          search_duckduckgo w query = error_result (key_error ''body'') \<or>
          search_duckduckgo w query = error_result (key_error ''link'')"
    if t: "ddgs_text w query 5 = Inr ts" and n: "ddgs_news w query 3 = Inr ns"
      and k: "\<not> (list_all well_keyed ts \<and> list_all well_keyed ns)" for ts ns
  proof (cases "comprehension format_text_result ts")
    case (Inl e)
    from comprehension_raised [OF Inl] obtain r where
      "r \<in> set ts" and "format_text_result r = Inl e"
      by blast
    from format_text_result_key_error [OF this(2)] search_duckduckgo_text_raised [OF t n Inl]
    show ?thesis by auto
  next
    case (Inr texts)
    then have kt: "list_all well_keyed ts"
      by (meson comprehension_returns format_text_result_returns list_all_iff)
    show ?thesis
    proof (cases "comprehension format_news_result ns")
      case (Inl e)
      from comprehension_raised [OF Inl] obtain r where
        "r \<in> set ns" and "format_news_result r = Inl e"
        by blast
      from format_news_result_key_error [OF this(2)]
        search_duckduckgo_news_raised [OF t n Inr Inl]
      show ?thesis by auto
    next
      case news: (Inr news)
      then have "list_all well_keyed ns"
        by (meson comprehension_returns format_news_result_returns list_all_iff)
      with kt k show ?thesis by simp
    qed
  qed
  have link: "search_duckduckgo w query = error_result (key_error ''link'')"
    if t: "ddgs_text w query 5 = Inr ts" and n: "ddgs_news w query 3 = Inr ns"
      and kt: "list_all ddgs_text_entry ts" and kn: "list_all ddgs_news_entry ns"
      and ne: "ts \<noteq> [] \<or> ns \<noteq> []" for ts ns
  proof (cases "ts = []")
    case False
    from search_duckduckgo_text_raised [OF t n comprehension_ddgs_text [OF kt False]]
    show ?thesis .
  next
    case True
    then have c: "comprehension format_text_result ts = Inr []" by simp
    from True ne have "ns \<noteq> []" by simp
    from search_duckduckgo_news_raised [OF t n c comprehension_ddgs_news [OF kn this]]
    show ?thesis .
  qed
  have same: "(\<exists>e. search_duckduckgo w query = error_result e \<and>
               search_duckduckgo w' query = error_result e) \<or>
          (\<exists>texts news.
             search_duckduckgo w query =
               success_result texts news
                 (List.map_filter (get_news_summary w) (get_news_urls w query 5)) \<and>
             search_duckduckgo w' query =
               success_result texts news
                 (List.map_filter (get_news_summary w') (get_news_urls w' query 5)))"
    if t: "ddgs_text w' query 5 = ddgs_text w query 5"
      and n: "ddgs_news w' query 3 = ddgs_news w query 3" for w'
  proof (cases "ddgs_text w query 5")
    case (Inl e)
    with t show ?thesis by (auto simp: search_duckduckgo_def)
  next
    case ts: (Inr ts)
    show ?thesis
    proof (cases "ddgs_news w query 3")
      case (Inl e)
      with ts t n show ?thesis by (auto simp: search_duckduckgo_def)
    next
      case ns: (Inr ns)
      from ts t have ts': "ddgs_text w' query 5 = Inr ts" by simp
      from ns n have ns': "ddgs_news w' query 3 = Inr ns" by simp
      show ?thesis
      proof (cases "comprehension format_text_result ts")
        case (Inl e)
        from search_duckduckgo_text_raised [OF ts ns Inl]
          search_duckduckgo_text_raised [OF ts' ns' Inl]
        show ?thesis by blast
      next
        case texts: (Inr texts)
        show ?thesis
        proof (cases "comprehension format_news_result ns")
          case (Inl e)
          from search_duckduckgo_news_raised [OF ts ns texts Inl]
            search_duckduckgo_news_raised [OF ts' ns' texts Inl]
          show ?thesis by blast
        next
          case (Inr news)
          from search_duckduckgo_returned [OF ts ns texts Inr]
            search_duckduckgo_returned [OF ts' ns' texts Inr]
          show ?thesis by blast
        qed
      qed
    qed
  qed
  show ?thesis
    using e1 e2 ok bad link same get_news_urls_request_failure get_news_summary_fetch_failure
    by blast
qed

text \<open>
  Claim C4, amended, at four webs. With nothing found by the search client, a failing
  article download leaves one summary and a failing Google News request leaves none, and
  the call succeeds in both. With the text search raising the call is an error; with the
  search client returning entries (keys title, href, body, and for news date, title,
  body, url, image, source) the call is the error \<^verbatim>\<open>'link'\<close>.
\<close>

theorem search_duckduckgo_failure_isolation_witness:
  "search_duckduckgo quiet_web ''AAPL'' = success_result [] [] [sample_summary]
   \<and> search_duckduckgo news_down_web ''AAPL'' = success_result [] [] []
   \<and> search_duckduckgo ddgs_down_web ''AAPL'' = error_result ''timeout''
   \<and> search_duckduckgo hits_web ''AAPL'' = error_result (key_error ''link'')"
proof -
  have k0: "list_all well_keyed ([] :: nat pydict list)"
    by simp
  have qt: "ddgs_text quiet_web ''AAPL'' 5 = Inr []"
    by (simp add: quiet_web_def)
  have qn: "ddgs_news quiet_web ''AAPL'' 3 = Inr []"
    by (simp add: quiet_web_def)
  from search_duckduckgo_failure_isolation [of quiet_web "''AAPL''"] qt qn k0
  have "search_duckduckgo quiet_web ''AAPL'' =
      success_result (map (\<lambda>r. [(''title'', the (map_of r ''title'')),
                         (''snippet'', the (map_of r ''body'')),
                         (''link'', the (map_of r ''link''))]) [])
              (map (\<lambda>r. [(''title'', the (map_of r ''title'')),
                         (''snippet'', the (map_of r ''body'')),
                         (''link'', the (map_of r ''link'')),
                         (''date'', case map_of r ''date'' of
                                      None \<Rightarrow> PStr [] | Some d \<Rightarrow> d)]) [])
        (List.map_filter (get_news_summary quiet_web) (get_news_urls quiet_web ''AAPL'' 5))"
    by blast
  then have a: "search_duckduckgo quiet_web ''AAPL'' = success_result [] [] [sample_summary]"
    by (simp add: quiet_urls quiet_summary_a quiet_summary_b List.map_filter_simps)
  have nt: "ddgs_text news_down_web ''AAPL'' 5 = Inr []"
    by (simp add: news_down_web_def quiet_web_def)
  have nn: "ddgs_news news_down_web ''AAPL'' 3 = Inr []"
    by (simp add: news_down_web_def quiet_web_def)
  have r: "requests_get_links news_down_web (search_url ''AAPL'') = Inl ''connection refused''"
    by (simp add: news_down_web_def quiet_web_def)
  from search_duckduckgo_failure_isolation [of news_down_web "''AAPL''"] r
  have u: "get_news_urls news_down_web ''AAPL'' 5 = []"
    by blast
  from search_duckduckgo_failure_isolation [of news_down_web "''AAPL''"] nt nn k0
  have "search_duckduckgo news_down_web ''AAPL'' =
      success_result (map (\<lambda>r. [(''title'', the (map_of r ''title'')),
                         (''snippet'', the (map_of r ''body'')),
                         (''link'', the (map_of r ''link''))]) [])
              (map (\<lambda>r. [(''title'', the (map_of r ''title'')),
                         (''snippet'', the (map_of r ''body'')),
                         (''link'', the (map_of r ''link'')),
                         (''date'', case map_of r ''date'' of
                                      None \<Rightarrow> PStr [] | Some d \<Rightarrow> d)]) [])
        (List.map_filter (get_news_summary news_down_web)
           (get_news_urls news_down_web ''AAPL'' 5))"
    by blast
  then have b: "search_duckduckgo news_down_web ''AAPL'' = success_result [] [] []"
    by (simp add: u List.map_filter_simps)
  have d: "ddgs_text ddgs_down_web ''AAPL'' 5 = Inl ''timeout''"
    by (simp add: ddgs_down_web_def quiet_web_def)
  from search_duckduckgo_failure_isolation [of ddgs_down_web "''AAPL''"] d
  have c: "search_duckduckgo ddgs_down_web ''AAPL'' = error_result ''timeout''"
    by blast
  have ht: "ddgs_text hits_web ''AAPL'' 5 = Inr [ddgs_text_hit]"
    by (simp add: hits_web_def quiet_web_def)
  have hn: "ddgs_news hits_web ''AAPL'' 3 = Inr [ddgs_news_hit]"
    by (simp add: hits_web_def quiet_web_def)
  have kt: "list_all ddgs_text_entry [ddgs_text_hit]"
    by (auto simp: ddgs_text_entry_def ddgs_text_hit_def field_names_def)
  have kn: "list_all ddgs_news_entry [ddgs_news_hit]"
    by (auto simp: ddgs_news_entry_def ddgs_news_hit_def field_names_def)
  have ne: "[ddgs_text_hit] \<noteq> [] \<or> [ddgs_news_hit] \<noteq> []"
    by simp
  from search_duckduckgo_failure_isolation [of hits_web "''AAPL''"] ht hn kt kn ne
  have h: "search_duckduckgo hits_web ''AAPL'' = error_result (key_error ''link'')"
    by blast
  from a b c h show ?thesis by blast
qed

lemma py_split_url:
  assumes "CHR ''/'' \<notin> set scheme" and "CHR ''/'' \<notin> set host"
    and "path = [] \<or> hd path = CHR ''/''"
  shows "\<exists>rest. py_split ''/'' (scheme @ ''://'' @ host @ path) =
           (scheme @ '':'') # [] # host # rest"
proof -
  have s: "CHR ''/'' \<notin> set (scheme @ '':'')"
    using assms(1) by simp
  have 1: "py_split ''/'' (scheme @ ''://'' @ host @ path) =
      (scheme @ '':'') # split_from ''/'' [] (''/'' @ host @ path)"
    using split_from_cut_slash [OF s, of "[]" "''/'' @ host @ path"]
    by (simp add: py_split_def)
  have 2: "split_from ''/'' [] (''/'' @ host @ path) = [] # split_from ''/'' [] (host @ path)"
    by (simp add: starts_with_def)
  have 3: "\<exists>rest. split_from ''/'' [] (host @ path) = host # rest"
  proof (cases path)
    case Nil
    then show ?thesis using split_from_no_slash [OF assms(2), of "[]"] by simp
  next
    case (Cons c cs)
    with assms(3) have "path = CHR ''/'' # cs" by simp
    then show ?thesis using split_from_cut_slash [OF assms(2), of "[]" cs] by simp
  qed
  from 1 2 3 show ?thesis by auto
qed

lemma url_host_plain:
  assumes "CHR ''/'' \<notin> set scheme"
    and "set host \<inter> {CHR ''/'', CHR ''?'', CHR ''#'', CHR ''@'', CHR '':'', CHR ''[''} = {}"
    and "path = [] \<or> hd path = CHR ''/''"
  shows "url_host (scheme @ ''://'' @ host @ path) = Some host"
proof -
  have a: "takeWhile (\<lambda>c. c \<noteq> CHR ''/'' \<and> c \<noteq> CHR ''?'' \<and> c \<noteq> CHR ''#'') (host @ path) = host"
  proof (cases path)
    case Nil
    then show ?thesis using assms(2) by (auto simp: takeWhile_eq_all_conv)
  next
    case (Cons c cs)
    with assms(3) have "path = CHR ''/'' # cs" by simp
    then show ?thesis using assms(2) by (auto simp: takeWhile_tail)
  qed
  have u: "takeWhile (\<lambda>c. c \<noteq> CHR ''@'') (rev host) = rev host"
    using assms(2) by (auto simp: takeWhile_eq_all_conv)
  have b: "drop_userinfo host = host"
    unfolding drop_userinfo_def u by simp
  have n: "\<not> starts_with ''['' host"
    using assms(2) by (cases host) (auto simp: starts_with_def)
  have p: "takeWhile (\<lambda>c. c \<noteq> CHR '':'') host = host"
    using assms(2) by (auto simp: takeWhile_eq_all_conv)
  have c: "drop_port host = host"
    unfolding drop_port_def p using n by simp
  have s: "after_scheme (scheme @ ''://'' @ host @ path) = Some (host @ path)"
    using assms(1) by (rule after_scheme_found)
  show ?thesis
    unfolding url_host_def url_authority_def s by (simp add: a b c)
qed

text \<open>
  Claim C8, as stated, fails for a URL whose authority carries a port: the article at
  \<^verbatim>\<open>https://ex.com:8443/a\<close> is fetched, the host of that URL is \<^verbatim>\<open>ex.com\<close>, and the
  record's source is \<^verbatim>\<open>ex.com:8443\<close>.
\<close>

theorem get_news_summary_source_counterexample:
  "article_download_parse port_web ''https://ex.com:8443/a'' = Inr sample_article \<and>
   url_host ''https://ex.com:8443/a'' = Some ''ex.com'' \<and>
   get_news_summary port_web ''https://ex.com:8443/a'' =
     Some [(''title'', PStr ''Apple hits record''),
           (''summary'', PStr ''Shares of Apple rose.''),
           (''source'', PStr ''ex.com:8443''), (''url'', PStr ''https://ex.com:8443/a'')]"
  by (simp add: port_web_def quiet_web_def sample_article_def get_news_summary_def
      py_split_def starts_with_def nth_opt_def url_host_def url_authority_def
      drop_userinfo_def drop_port_def)

text \<open>
  Claim C8, amended. For a URL scheme://host or scheme://host/path whose authority is
  a bare host name (no user information, no port, no IP literal in brackets, and no
  query or fragment following the host directly) and whose download and parse succeed, \<open>get_news_summary\<close> returns a
  record with exactly the fields title, summary, source and url, in which source is the
  host component of the URL, url is the URL itself, and summary is the article's meta
  description when it is non-empty and otherwise the first 250 characters of the article
  text.
\<close>

theorem get_news_summary_record:
  assumes fetch: "article_download_parse w url = Inr a"
    and url: "url = scheme @ ''://'' @ host @ path"
    and scheme: "CHR ''/'' \<notin> set scheme"
    and host: "set host \<inter> {CHR ''/'', CHR ''?'', CHR ''#'', CHR ''@'', CHR '':'', CHR ''[''} = {}"
    and path: "path = [] \<or> hd path = CHR ''/''"
  shows "url_host url = Some host \<and>
         (\<exists>summary.
           get_news_summary w url =
             Some [(''title'', PStr (article_title a)), (''summary'', PStr summary),
                   (''source'', PStr host), (''url'', PStr url)] \<and>
           (article_meta_description a \<noteq> [] \<longrightarrow> summary = article_meta_description a) \<and>
           (article_meta_description a = [] \<longrightarrow>
              summary = take 250 (article_text a) \<and> length summary \<le> 250))"
proof -
  from host have h: "CHR ''/'' \<notin> set host" by auto
  from py_split_url [OF scheme h path] obtain rest where
    "py_split ''/'' url = (scheme @ '':'') # [] # host # rest"
    using url by blast
  then have "nth_opt (py_split ''/'' url) 2 = Some host"
    by (simp add: nth_opt_def)
  then have "\<exists>summary.
           get_news_summary w url =
             Some [(''title'', PStr (article_title a)), (''summary'', PStr summary),
                   (''source'', PStr host), (''url'', PStr url)] \<and>
           (article_meta_description a \<noteq> [] \<longrightarrow> summary = article_meta_description a) \<and>
           (article_meta_description a = [] \<longrightarrow>
              summary = take 250 (article_text a) \<and> length summary \<le> 250)"
    using fetch by (simp add: get_news_summary_def)
  with url_host_plain [OF scheme host path] url show ?thesis by simp
qed

text \<open>Claim C8, amended, at the sample article, which has no meta description.\<close>

theorem get_news_summary_record_witness:
  "url_host ''https://ex.com/a'' = Some ''ex.com'' \<and>
   get_news_summary quiet_web ''https://ex.com/a'' =
     Some [(''title'', PStr ''Apple hits record''),
           (''summary'', PStr ''Shares of Apple rose.''),
           (''source'', PStr ''ex.com''), (''url'', PStr ''https://ex.com/a'')]"
proof -
  have f: "article_download_parse quiet_web ''https://ex.com/a'' = Inr sample_article"
    by (simp add: quiet_web_def)
  have u: "''https://ex.com/a'' = ''https'' @ ''://'' @ ''ex.com'' @ ''/a''"
    by simp
  have s: "CHR ''/'' \<notin> set ''https''" by simp
  have h: "set ''ex.com'' \<inter> {CHR ''/'', CHR ''?'', CHR ''#'', CHR ''@'', CHR '':'', CHR ''[''} = {}"
    by simp
  have p: "''/a'' = [] \<or> hd ''/a'' = CHR ''/''" by simp
  from get_news_summary_record [OF f u s h p]
  show ?thesis by (auto simp: sample_article_def)
qed

section \<open>Properties of the supervisor boundary and the transcription endpoint\<close>

text \<open>
  Claim C1. The two entry points do not hand the supervisor the same payload shape.
  For every query and every supervisor, \<^verbatim>\<open>ma.py\<close> invokes it with the query as a
  \<^verbatim>\<open>HumanMessage\<close> with string content under the key \<^verbatim>\<open>messages\<close>, which is a
  conversation payload; \<^verbatim>\<open>main.py\<close> invokes it with the key \<^verbatim>\<open>Message\<close> and a
  dictionary turn whose content is the set holding the query, which is not: it has no
  \<^verbatim>\<open>messages\<close> key and no turn with string content.
\<close>

theorem process_user_query_payloads:
  "ma_process_user_query supervise query =
     supervise [(''messages'', [HumanMessage (Text query)])]
   \<and> main_process_user_query supervise query =
       supervise [(''Message'',
                    [MessageDict [(''role'', Text ''user''), (''content'', TextSet {query})]])]
   \<and> conversation_payload query [(''messages'', [HumanMessage (Text query)])]
   \<and> \<not> conversation_payload query
         [(''Message'',
            [MessageDict [(''role'', Text ''user''), (''content'', TextSet {query})]])]
   \<and> map_of [(''Message'',
                [MessageDict [(''role'', Text ''user''), (''content'', TextSet {query})]])]
         ''messages'' = None
   \<and> \<not> list_ex (user_turn query)
         [MessageDict [(''role'', Text ''user''), (''content'', TextSet {query})]]"
  by (simp add: ma_process_user_query_def main_process_user_query_def
      conversation_payload_def user_turn_def)

lemma transcribe_body_cases:
  "(\<exists>e. snd (transcribe_body rq) = Inl e) \<or>
   (\<exists>text response messages.
      makedirs rq = None \<and> save_upload rq = None \<and> from_file rq = None \<and>
      sound_export rq = None \<and> recognize rq = Inr text \<and>
      main_process_user_query (invoke rq) text = Inr response \<and>
      map_of response ''messages'' = Some messages \<and>
      gtts rq (final_response_of messages) = None \<and>
      tts_save rq (''static/response_'' @ uuid4_hex rq @ ''.mp3'') = None \<and>
      transcribe_body rq =
        ([''temp.wav'', ''converted.wav'', ''static/response_'' @ uuid4_hex rq @ ''.mp3''],
         Inr [(''transcription'', Text text),
              (''response'', final_response_of messages),
              (''audio_url'', Text (''/static/response_'' @ uuid4_hex rq @ ''.mp3''))]))"
  by (auto simp: transcribe_body_def respond_def Let_def split: option.splits sum.splits)

lemma on_exception_one_field: "\<exists>message. on_exception e = [(''error'', Text message)]"
  by (cases e) (simp_all add: on_exception_def)

text \<open>
  Claim C6. For every request the endpoint returns one of two objects: the success
  object with exactly the fields transcription, response and audio_url (the recognised
  text, the final response extracted from the supervisor's messages, and the URL of the
  response audio), or an object with the single field error. When the upload has been
  saved and converted and the recogniser raises \<^verbatim>\<open>UnknownValueError\<close>, the object is
  the one-field error object with the fixed message; it has no response and no audio_url.
\<close>

theorem transcribe_audio_shapes:
  "((\<exists>text response messages.
       recognize rq = Inr text \<and>
       main_process_user_query (invoke rq) text = Inr response \<and>
       map_of response ''messages'' = Some messages \<and>
       transcribe_audio rq =
         [(''transcription'', Text text),
          (''response'', final_response_of messages),
          (''audio_url'', Text (''/static/response_'' @ uuid4_hex rq @ ''.mp3''))])
    \<or> (\<exists>message. transcribe_audio rq = [(''error'', Text message)]))
   \<and> (makedirs rq = None \<and> save_upload rq = None \<and> from_file rq = None \<and>
       sound_export rq = None \<and> recognize rq = Inl UnknownValueError \<longrightarrow>
         transcribe_audio rq =
           [(''error'', Text ''Google Speech Recognition could not understand audio'')] \<and>
         map_of (transcribe_audio rq) ''response'' = None \<and>
         map_of (transcribe_audio rq) ''audio_url'' = None)"
proof -
  have shapes: "(\<exists>text response messages.
       recognize rq = Inr text \<and>
       main_process_user_query (invoke rq) text = Inr response \<and>
       map_of response ''messages'' = Some messages \<and>
       transcribe_audio rq =
         [(''transcription'', Text text),
          (''response'', final_response_of messages),
          (''audio_url'', Text (''/static/response_'' @ uuid4_hex rq @ ''.mp3''))])
    \<or> (\<exists>message. transcribe_audio rq = [(''error'', Text message)])"
    using transcribe_body_cases [of rq]
  proof
    assume "\<exists>e. snd (transcribe_body rq) = Inl e"
    then obtain e where "snd (transcribe_body rq) = Inl e" by blast
    then have "transcribe_audio rq = on_exception e"
      by (simp add: transcribe_audio_def)
    with on_exception_one_field [of e] show ?thesis by auto
  next
    assume "\<exists>text response messages.
      makedirs rq = None \<and> save_upload rq = None \<and> from_file rq = None \<and>
      sound_export rq = None \<and> recognize rq = Inr text \<and>
      main_process_user_query (invoke rq) text = Inr response \<and>
      map_of response ''messages'' = Some messages \<and>
      gtts rq (final_response_of messages) = None \<and>
      tts_save rq (''static/response_'' @ uuid4_hex rq @ ''.mp3'') = None \<and>
      transcribe_body rq =
        ([''temp.wav'', ''converted.wav'', ''static/response_'' @ uuid4_hex rq @ ''.mp3''],
         Inr [(''transcription'', Text text),
              (''response'', final_response_of messages),
              (''audio_url'', Text (''/static/response_'' @ uuid4_hex rq @ ''.mp3''))])"
    then obtain spoken response messages where
      r: "recognize rq = Inr spoken"
        "main_process_user_query (invoke rq) spoken = Inr response"
        "map_of response ''messages'' = Some messages" and
      b: "transcribe_body rq =
        ([''temp.wav'', ''converted.wav'', ''static/response_'' @ uuid4_hex rq @ ''.mp3''],
         Inr [(''transcription'', Text spoken),
              (''response'', final_response_of messages),
              (''audio_url'', Text (''/static/response_'' @ uuid4_hex rq @ ''.mp3''))])"
      by blast
    from b have "transcribe_audio rq =
         [(''transcription'', Text spoken),
          (''response'', final_response_of messages),
          (''audio_url'', Text (''/static/response_'' @ uuid4_hex rq @ ''.mp3''))]"
      by (simp add: transcribe_audio_def)
    with r show ?thesis by blast
  qed
  have unintelligible: "transcribe_audio rq =
           [(''error'', Text ''Google Speech Recognition could not understand audio'')] \<and>
         map_of (transcribe_audio rq) ''response'' = None \<and>
         map_of (transcribe_audio rq) ''audio_url'' = None"
    if "makedirs rq = None" "save_upload rq = None" "from_file rq = None"
      "sound_export rq = None" "recognize rq = Inl UnknownValueError"
    using that by (simp add: transcribe_audio_def transcribe_body_def on_exception_def)
  from shapes unintelligible show ?thesis by blast
qed

text \<open>Claim C6 at an upload of silence.\<close>

theorem transcribe_audio_shapes_witness:
  "recognize silent_request = Inl UnknownValueError
   \<and> transcribe_audio silent_request =
       [(''error'', Text ''Google Speech Recognition could not understand audio'')]
   \<and> map_of (transcribe_audio silent_request) ''response'' = None
   \<and> map_of (transcribe_audio silent_request) ''audio_url'' = None"
proof -
  have h: "makedirs silent_request = None \<and> save_upload silent_request = None \<and>
      from_file silent_request = None \<and> sound_export silent_request = None \<and>
      recognize silent_request = Inl UnknownValueError"
    by (simp add: silent_request_def spoken_request_def)
  from transcribe_audio_shapes [of silent_request] h show ?thesis by blast
qed

lemma scan_messages_skip:
  "\<forall>m \<in> set skipped. \<forall>c. m \<noteq> AIMessage c \<Longrightarrow>
   scan_messages final (skipped @ messages) = scan_messages final messages"
  by (induction skipped) (auto split: message.splits)


lemma final_response_of_none:
  "\<forall>m \<in> set messages. \<forall>c. m \<noteq> AIMessage c \<Longrightarrow> final_response_of messages = Text ''''"
  using scan_messages_skip [of "rev messages" "Text ''''" "[]"]
  by (simp add: final_response_of_def)









end
